theory Spec2Isabelle
  imports Complex_Main "HOL-Library.Sublist"
begin

section \<open>Strings of the display layer\<close>

text \<open>
  The heads-up display (\<^verbatim>\<open>src/app/components/IntelligenceHUD.tsx\<close>) inspects the owner
  name of the foreground application with \<^verbatim>\<open>String.prototype.toLowerCase\<close> and
  \<^verbatim>\<open>String.prototype.includes\<close>. A name is modelled as a \<^typ>\<open>string\<close>, each
  \<^typ>\<open>char\<close> read as one code unit in the range U+0000 to U+00FF (ISO Latin-1).
  On that range \<^verbatim>\<open>toLowerCase\<close> moves the letters A to Z and the capital letters
  U+00C0 to U+00DE (the multiplication sign U+00D7 apart) up by 32 and leaves every other code
  unit alone. Names with code units above U+00FF are outside this model.
\<close>

definition toLowerChar :: "char \<Rightarrow> char" where
  "toLowerChar c =
     (let n = (of_char c :: nat)
      in if (65 \<le> n \<and> n \<le> 90) \<or> (192 \<le> n \<and> n \<le> 222 \<and> n \<noteq> 215)
         then char_of (n + 32) else c)"

definition toLowerCase :: "string \<Rightarrow> string" where
  "toLowerCase s = map toLowerChar s"

text \<open>
  \<^verbatim>\<open>s.includes(t)\<close> searches \<open>t\<close> at every position of \<open>s\<close>, the end included (so
  the empty string is found in every string). \<open>starts_with s t\<close> compares \<open>t\<close> with the
  code units of \<open>s\<close> at the current position.
\<close>

fun starts_with :: "string \<Rightarrow> string \<Rightarrow> bool" where
  "starts_with s [] = True"
| "starts_with [] (t # ts) = False"
| "starts_with (c # cs) (t # ts) = (c = t \<and> starts_with cs ts)"

fun includes_str :: "string \<Rightarrow> string \<Rightarrow> bool" where
  "includes_str [] t = starts_with [] t"
| "includes_str (c # cs) t = (starts_with (c # cs) t \<or> includes_str cs t)"

section \<open>The intent heuristic\<close>

text \<open>
  The chain of \<^verbatim>\<open>if\<close>/\<^verbatim>\<open>else if\<close> of the notification handler, as a function of
  \<^verbatim>\<open>appName\<close>. The value is the argument the branch passes to \<^verbatim>\<open>setIntent\<close>. In every
  one of the first four conditions the left test reads \<^verbatim>\<open>appName.toLowerCase()\<close> and the
  right test reads \<^verbatim>\<open>appName\<close> itself.
\<close>

definition classify :: "string \<Rightarrow> string" where
  "classify appName =
     (if includes_str (toLowerCase appName) ''code'' \<or> includes_str appName ''Terminal''
        then ''Coding''
      else if includes_str (toLowerCase appName) ''chrome'' \<or> includes_str appName ''browser''
        then ''Browsing / Research''
      else if includes_str (toLowerCase appName) ''slack'' \<or> includes_str appName ''whatsapp''
        then ''Communication''
      else if includes_str (toLowerCase appName) ''notepad'' \<or> includes_str appName ''text''
        then ''Drafting''
      else if includes_str (toLowerCase appName) ''calc''
        then ''Calculation''
      else ''General Task'')"

section \<open>State of the display layer\<close>

text \<open>
  The payload of an \<^verbatim>\<open>active-window-change\<close> message is the object
  \<^verbatim>\<open>{title, owner, app}\<close>; a field that is missing reads as \<^verbatim>\<open>undefined\<close>, here
  \<^const>\<open>None\<close>.
\<close>

record payload =
  title :: "string option"
  owner :: "string option"
  app :: "string option"

text \<open>
  The three \<^verbatim>\<open>useState\<close> cells of the component, together with what the component has
  done to \<^verbatim>\<open>ipcRenderer\<close>: \<open>listening\<close> holds when the handler of
  \<^verbatim>\<open>active-window-change\<close> is registered, and \<open>sent\<close> lists the messages passed to
  \<^verbatim>\<open>ipcRenderer.send\<close> (channel and argument), oldest first.
\<close>

record hud_state =
  intent :: string
  appContext :: string
  confidence :: real
  listening :: bool
  sent :: "(string \<times> bool) list"

text \<open>\<^verbatim>\<open>data.owner || "Unknown"\<close>: an undefined owner and the empty string are both falsy.\<close>

definition appName_of :: "payload \<Rightarrow> string" where
  "appName_of data =
     (case owner data of
        None \<Rightarrow> ''Unknown''
      | Some s \<Rightarrow> if s = [] then ''Unknown'' else s)"

definition on_active_window_change :: "payload \<Rightarrow> hud_state \<Rightarrow> hud_state" where
  "on_active_window_change data st =
     (let appName = appName_of data
      in st\<lparr>appContext := appName, intent := classify appName\<rparr>)"

text \<open>
  The update of the one-second timer. \<open>r\<close> is the value \<^verbatim>\<open>Math.random()\<close> returned.
  Numbers are modelled as reals: \<^verbatim>\<open>Math.min\<close> and \<^verbatim>\<open>Math.max\<close> return one of their
  arguments unchanged, so the rounding of the sum does not move the bounds.
\<close>

definition jitter :: "real \<Rightarrow> real \<Rightarrow> real" where
  "jitter prev r = min 100 (max 80 (prev + (r - 0.5) * 10))"

text \<open>
  \<open>req\<close> stands for the guard \<^verbatim>\<open>typeof window !== 'undefined' && window.require\<close>:
  whether the messaging channel of the host is there.
\<close>

definition setIgnoreMouseEvents :: "bool \<Rightarrow> bool \<Rightarrow> hud_state \<Rightarrow> hud_state" where
  "setIgnoreMouseEvents req ignore st =
     (if req then st\<lparr>sent := sent st @ [(''set-ignore-mouse-events'', ignore)]\<rparr> else st)"

text \<open>
  Mounting: the initial values of the state cells, then the two effects in their order. The
  first registers the handler when the channel is there, the second calls
  \<^verbatim>\<open>setIgnoreMouseEvents(true)\<close>.
\<close>

definition initial :: hud_state where
  "initial = \<lparr>intent = ''Idle'', appContext = ''Detecting...'', confidence = 0,
              listening = False, sent = []\<rparr>"

definition mount :: "bool \<Rightarrow> hud_state" where
  "mount req = setIgnoreMouseEvents req True (initial\<lparr>listening := req\<rparr>)"

datatype event =
  IntervalTick real
| ActiveWindowChange payload
| MouseEnter
| MouseLeave

fun step :: "bool \<Rightarrow> hud_state \<Rightarrow> event \<Rightarrow> hud_state" where
  "step req st (IntervalTick r) = st\<lparr>confidence := jitter (confidence st) r\<rparr>"
| "step req st (ActiveWindowChange data) =
     (if listening st then on_active_window_change data st else st)"
| "step req st MouseEnter = setIgnoreMouseEvents req False st"
| "step req st MouseLeave = setIgnoreMouseEvents req True st"

definition run :: "bool \<Rightarrow> event list \<Rightarrow> hud_state" where
  "run req evs = foldl (step req) (mount req) evs"

section \<open>The precedence table of the specification\<close>

text \<open>
  The specification describes the heuristic as an ordered table of predicates and labels,
  the first match winning. \<open>first_match\<close> evaluates such a table. The two substring tests of
  the table are stated with the substring relation \<^const>\<open>sublist\<close> on lists:
  \<open>contains_ci\<close> compares the lowercased name with the lowercased token, \<open>contains_raw\<close>
  compares the name as it is.
\<close>

fun first_match :: "((string \<Rightarrow> bool) \<times> string) list \<Rightarrow> string \<Rightarrow> string \<Rightarrow> string" where
  "first_match [] dflt s = dflt"
| "first_match ((p, l) # rules) dflt s = (if p s then l else first_match rules dflt s)"

definition contains_ci :: "string \<Rightarrow> string \<Rightarrow> bool" where
  "contains_ci s tok = sublist (toLowerCase tok) (toLowerCase s)"

definition contains_raw :: "string \<Rightarrow> string \<Rightarrow> bool" where
  "contains_raw s tok = sublist tok s"

text \<open>
  The table in the words of the specification: every token is tested without regard to case,
  except \<^verbatim>\<open>Terminal\<close> and \<^verbatim>\<open>browser\<close>, which are looked for in the unmodified name.
\<close>

definition spec_table :: "((string \<Rightarrow> bool) \<times> string) list" where
  "spec_table =
     [(\<lambda>s. contains_ci s ''code'' \<or> contains_raw s ''Terminal'', ''Coding''),
      (\<lambda>s. contains_ci s ''chrome'' \<or> contains_raw s ''browser'', ''Browsing / Research''),
      (\<lambda>s. contains_ci s ''slack'' \<or> contains_ci s ''whatsapp'', ''Communication''),
      (\<lambda>s. contains_ci s ''notepad'' \<or> contains_ci s ''text'', ''Drafting''),
      (\<lambda>s. contains_ci s ''calc'', ''Calculation'')]"

definition classify_spec :: "string \<Rightarrow> string" where
  "classify_spec s = first_match spec_table ''General Task'' s"

text \<open>
  The table the source implements: the second token of each of the first four rules is
  looked for in the unmodified name.
\<close>

definition source_table :: "((string \<Rightarrow> bool) \<times> string) list" where
  "source_table =
     [(\<lambda>s. contains_ci s ''code'' \<or> contains_raw s ''Terminal'', ''Coding''),
      (\<lambda>s. contains_ci s ''chrome'' \<or> contains_raw s ''browser'', ''Browsing / Research''),
      (\<lambda>s. contains_ci s ''slack'' \<or> contains_raw s ''whatsapp'', ''Communication''),
      (\<lambda>s. contains_ci s ''notepad'' \<or> contains_raw s ''text'', ''Drafting''),
      (\<lambda>s. contains_ci s ''calc'', ''Calculation'')]"

section \<open>The poller of the host shell\<close>

text \<open>
  The result of the foreground query \<^verbatim>\<open>activeWin()\<close> is an object
  \<^verbatim>\<open>{title, owner: {name, path}}\<close>. One call either rejects with an error, resolves
  to nothing, or resolves to such an object.
\<close>

record owner_info =
  name :: string
  path :: string

record active_win_result =
  win_title :: string
  win_owner :: owner_info

datatype query_outcome =
  Rejected string
| Nothing
| Found active_win_result

text \<open>
  What the \<^verbatim>\<open>catch\<close> clause of the poller can receive: the value the query rejected
  with, or the \<^verbatim>\<open>TypeError\<close> of reading \<^verbatim>\<open>webContents\<close> of a \<^verbatim>\<open>mainWindow\<close> that
  is \<^verbatim>\<open>null\<close>.
\<close>

datatype thrown =
  Rejection string
| NullWindow

text \<open>
  What the poller reads of the host: whether \<^verbatim>\<open>mainWindow\<close> is set, whether the
  module \<^verbatim>\<open>active-win\<close> was loaded into \<^verbatim>\<open>activeWin\<close>, and the calls of
  \<^verbatim>\<open>console.error\<close>, each with its two arguments.
\<close>

record host =
  mainWindow :: bool
  activeWin :: bool
  console :: "(string \<times> thrown) list"

text \<open>The handler of the window's \<^verbatim>\<open>closed\<close> event: \<^verbatim>\<open>mainWindow = null\<close>.\<close>

definition on_closed :: "host \<Rightarrow> host" where
  "on_closed h = h\<lparr>mainWindow := False\<rparr>"

text \<open>
  The host when the awaited query settles: the event loop may have run the \<^verbatim>\<open>closed\<close>
  handler while the query was pending.
\<close>

definition after_await :: "bool \<Rightarrow> host \<Rightarrow> host" where
  "after_await was_closed h = (if was_closed then on_closed h else h)"

text \<open>
  The body of the \<^verbatim>\<open>try\<close> block once the query has settled: \<^const>\<open>Inl\<close> is the error
  thrown, \<^const>\<open>Inr\<close> the payloads passed to
  \<^verbatim>\<open>mainWindow.webContents.send('active-window-change', ...)\<close>. The send dereferences
  \<^verbatim>\<open>mainWindow\<close> as it is after the await.
\<close>

definition query_and_send :: "host \<Rightarrow> query_outcome \<Rightarrow> thrown + payload list" where
  "query_and_send h q =
     (case q of
        Rejected e \<Rightarrow> Inl (Rejection e)
      | Nothing \<Rightarrow> Inr []
      | Found result \<Rightarrow>
          if mainWindow h then
            Inr [\<lparr>title = Some (win_title result),
                  owner = Some (name (win_owner result)),
                  app = Some (path (win_owner result))\<rparr>]
          else Inl NullWindow)"

text \<open>
  One run of the callback of \<^verbatim>\<open>setInterval\<close>. The guard reads \<^verbatim>\<open>mainWindow\<close> and
  \<^verbatim>\<open>activeWin\<close> before the query is awaited; \<open>was_closed\<close> tells whether the window was
  closed while the query was pending. The \<^verbatim>\<open>catch\<close> clause passes the prefix and the
  error to \<^verbatim>\<open>console.error\<close>. The value is \<^const>\<open>Inl\<close> when an error leaves the
  callback, otherwise the host after the tick and the notifications sent.
\<close>

definition poll_tick :: "host \<Rightarrow> bool \<Rightarrow> query_outcome \<Rightarrow> thrown + (host \<times> payload list)" where
  "poll_tick h was_closed q =
     (if mainWindow h \<and> activeWin h then
        (let h' = after_await was_closed h
         in case query_and_send h' q of
              Inl e \<Rightarrow> Inr (h'\<lparr>console := console h' @ [(''[Window Poller Error]:'', e)]\<rparr>, [])
            | Inr ps \<Rightarrow> Inr (h', ps))
      else Inr (h, []))"

text \<open>The display after the tick: every notification sent is handed to the display layer.\<close>

definition display_after_tick :: "host \<Rightarrow> bool \<Rightarrow> query_outcome \<Rightarrow> hud_state \<Rightarrow> hud_state" where
  "display_after_tick h was_closed q st =
     (case poll_tick h was_closed q of
        Inl e \<Rightarrow> st
      | Inr (h', ps) \<Rightarrow> foldl (\<lambda>st p. step True st (ActiveWindowChange p)) st ps)"

section \<open>Auxiliary facts\<close>

text \<open>The search of \<open>includes_str\<close> decides the substring relation.\<close>

lemma starts_with_prefix: "starts_with s t \<longleftrightarrow> prefix t s"
  by (induction s t rule: starts_with.induct) auto

lemma includes_str_sublist: "includes_str s t \<longleftrightarrow> sublist t s"
  by (induction s) (simp_all add: starts_with_prefix sublist_Cons_right)

text \<open>The tokens compared with the lowercased name are in lower case already.\<close>

lemma toLowerCase_tokens:
  "toLowerCase ''code'' = ''code''"
  "toLowerCase ''chrome'' = ''chrome''"
  "toLowerCase ''slack'' = ''slack''"
  "toLowerCase ''notepad'' = ''notepad''"
  "toLowerCase ''calc'' = ''calc''"
  by code_simp+

lemma classify_Unknown: "classify ''Unknown'' = ''General Task''"
  by code_simp

lemma classify_Code_exe: "classify ''Code.exe'' = ''Coding''"
  by code_simp

text \<open>Without the channel no event sends a message, registers a handler or moves the labels.\<close>

lemma step_without_channel:
  assumes "sent st = []" and "\<not> listening st"
  shows "sent (step False st ev) = [] \<and> \<not> listening (step False st ev) \<and>
         appContext (step False st ev) = appContext st \<and> intent (step False st ev) = intent st"
  using assms by (cases ev) (simp_all add: setIgnoreMouseEvents_def)

lemma foldl_step_without_channel:
  assumes "sent st = []" and "\<not> listening st"
  shows "sent (foldl (step False) st evs) = [] \<and> \<not> listening (foldl (step False) st evs) \<and>
         appContext (foldl (step False) st evs) = appContext st \<and>
         intent (foldl (step False) st evs) = intent st"
  using assms
proof (induction evs arbitrary: st)
  case Nil
  then show ?case by simp
next
  case (Cons ev evs)
  from step_without_channel [OF Cons.prems]
  have s: "sent (step False st ev) = []" and l: "\<not> listening (step False st ev)"
    and a: "appContext (step False st ev) = appContext st"
    and i: "intent (step False st ev) = intent st"
    by simp_all
  from Cons.IH [OF s l] a i show ?case by simp
qed

section \<open>The precedence of the heuristic\<close>

text \<open>
  Claim C1, as the specification states it: \<open>classify\<close> follows the table of the
  specification, in which only \<^verbatim>\<open>Terminal\<close> and \<^verbatim>\<open>browser\<close> are compared with the
  unmodified name, and rules 3 and 4 disregard case for both of their tokens. The source
  differs on the names \<^verbatim>\<open>WhatsApp\<close> and \<^verbatim>\<open>TextEdit\<close>: \<^verbatim>\<open>whatsapp\<close> and \<^verbatim>\<open>text\<close> are
  looked for in the unmodified name, where neither occurs, so the source answers General Task
  where the table of the specification answers Communication and Drafting.
\<close>

theorem classify_case_counterexample:
  "classify ''WhatsApp'' = ''General Task'' \<and> classify_spec ''WhatsApp'' = ''Communication'' \<and>
   classify ''TextEdit'' = ''General Task'' \<and> classify_spec ''TextEdit'' = ''Drafting''"
  by code_simp

text \<open>
  Claim C1, amended: for every owner name, \<open>classify\<close> tries rules 1 to 6 in order and the
  first match wins; the first token of each of rules 1 to 5 (\<^verbatim>\<open>code\<close>, \<^verbatim>\<open>chrome\<close>,
  \<^verbatim>\<open>slack\<close>, \<^verbatim>\<open>notepad\<close>, \<^verbatim>\<open>calc\<close>) is a substring test on the lowercased name, and
  the second token of each of rules 1 to 4 (\<^verbatim>\<open>Terminal\<close>, \<^verbatim>\<open>browser\<close>, \<^verbatim>\<open>whatsapp\<close>,
  \<^verbatim>\<open>text\<close>) is a substring test on the unmodified name.
\<close>

theorem classify_source_table: "classify s = first_match source_table ''General Task'' s"
  by (simp add: classify_def source_table_def contains_ci_def contains_raw_def
      includes_str_sublist toLowerCase_tokens)

section \<open>The confidence meter\<close>

text \<open>
  Claim C2. Whatever the previous confidence and whatever value the random source returns,
  the updated confidence lies between 80 and 100, and the update clamps: a sum below 80 gives
  80, a sum above 100 gives 100 (it does not wrap around, as from 99 with the random value
  9/10), and a sum in between is kept.
\<close>

theorem jitter_in_range:
  "80 \<le> jitter prev r \<and> jitter prev r \<le> 100 \<and>
   jitter prev r =
     (if prev + (r - 1 / 2) * 10 < 80 then 80
      else if 100 < prev + (r - 1 / 2) * 10 then 100
      else prev + (r - 1 / 2) * 10) \<and>
   confidence (step req st (IntervalTick r)) = jitter (confidence st) r \<and>
   jitter 99 (9 / 10) = 100 \<and> jitter 81 (1 / 10) = 80 \<and> jitter 90 (7 / 10) = 92"
  by (simp add: jitter_def)

text \<open>
  Claim C9. The first update of the confidence after mounting gives exactly 80: the initial
  value is 0 and \<^verbatim>\<open>Math.random()\<close> lies in \<open>[0, 1)\<close>, so the sum lies in \<open>[-5, 5)\<close>,
  below the lower bound of the clamp.
\<close>

theorem first_jitter_is_80:
  assumes "0 \<le> r" and "r < 1"
  shows "confidence (step req (mount req) (IntervalTick r)) = 80"
  using assms by (simp add: mount_def initial_def setIgnoreMouseEvents_def jitter_def)

theorem first_jitter_is_80_witness:
  "(0::real) \<le> 1 / 2 \<and> (1 / 2 :: real) < 1 \<and>
   confidence (step True (mount True) (IntervalTick (1 / 2))) = 80"
  using first_jitter_is_80 [of "1 / 2" True] by simp

section \<open>The classification of the named applications\<close>

text \<open>
  Claim C3. \<open>classify\<close> is a function of the owner name alone, defined on every name, and
  the six applications the specification names are classified as Coding, Browsing / Research,
  Communication, Drafting, Calculation and General Task.
\<close>

theorem classify_named_inputs:
  "classify ''Visual Studio Code'' = ''Coding'' \<and>
   classify ''Google Chrome'' = ''Browsing / Research'' \<and>
   classify ''Slack'' = ''Communication'' \<and>
   classify ''Notepad'' = ''Drafting'' \<and>
   classify ''Calculator'' = ''Calculation'' \<and>
   classify ''Spotify'' = ''General Task''"
  by code_simp

section \<open>Notifications without an owner name\<close>

text \<open>
  Claim C4. A notification whose owner name is missing is handled without an error and
  leaves the state with the application context \<^verbatim>\<open>Unknown\<close> and the intent General Task,
  from any state of the component and in particular right after mounting.
\<close>

theorem missing_owner_is_Unknown:
  "appContext (on_active_window_change (data\<lparr>owner := None\<rparr>) st) = ''Unknown'' \<and>
   intent (on_active_window_change (data\<lparr>owner := None\<rparr>) st) = ''General Task'' \<and>
   appContext (step req (mount True) (ActiveWindowChange (data\<lparr>owner := None\<rparr>))) = ''Unknown'' \<and>
   intent (step req (mount True) (ActiveWindowChange (data\<lparr>owner := None\<rparr>))) = ''General Task''"
  by (simp add: on_active_window_change_def appName_of_def classify_Unknown mount_def
      initial_def setIgnoreMouseEvents_def)

text \<open>
  Claim C10. A notification whose owner name is the empty string is handled exactly like one
  whose owner name is missing: the application context is \<^verbatim>\<open>Unknown\<close> and the intent is
  General Task.
\<close>

theorem empty_owner_is_Unknown:
  "on_active_window_change (data\<lparr>owner := Some ''''\<rparr>) st =
     on_active_window_change (data\<lparr>owner := None\<rparr>) st \<and>
   appContext (on_active_window_change (data\<lparr>owner := Some ''''\<rparr>) st) = ''Unknown'' \<and>
   intent (on_active_window_change (data\<lparr>owner := Some ''''\<rparr>) st) = ''General Task''"
  by (simp add: on_active_window_change_def appName_of_def classify_Unknown)

section \<open>The display layer from mount to pointer events\<close>

text \<open>
  Claim C5. With the channel of the host present, mounting leaves the application context
  \<^verbatim>\<open>Detecting...\<close> and the intent \<^verbatim>\<open>Idle\<close> and sends one control message with
  \<open>ignore = true\<close>; the snapshot with owner \<^verbatim>\<open>Code.exe\<close> makes the application context
  \<^verbatim>\<open>Code.exe\<close> and the intent Coding; pointer-enter sends a control message with
  \<open>ignore = false\<close> and pointer-leave one with \<open>ignore = true\<close>.
\<close>

theorem hud_end_to_end:
  "appContext (mount True) = ''Detecting...'' \<and> intent (mount True) = ''Idle'' \<and>
   sent (mount True) = [(''set-ignore-mouse-events'', True)] \<and>
   appContext (step True (mount True)
       (ActiveWindowChange \<lparr>title = None, owner = Some ''Code.exe'', app = None\<rparr>)) = ''Code.exe'' \<and>
   intent (step True (mount True)
       (ActiveWindowChange \<lparr>title = None, owner = Some ''Code.exe'', app = None\<rparr>)) = ''Coding'' \<and>
   sent (step True st MouseEnter) = sent st @ [(''set-ignore-mouse-events'', False)] \<and>
   sent (step True st MouseLeave) = sent st @ [(''set-ignore-mouse-events'', True)] \<and>
   sent (run True [ActiveWindowChange \<lparr>title = None, owner = Some ''Code.exe'', app = None\<rparr>,
                   MouseEnter, MouseLeave]) =
     [(''set-ignore-mouse-events'', True), (''set-ignore-mouse-events'', False),
      (''set-ignore-mouse-events'', True)]"
  by (simp add: run_def mount_def initial_def setIgnoreMouseEvents_def
      on_active_window_change_def appName_of_def classify_Code_exe)

text \<open>
  Claim C7. When the channel of the host is absent, \<^verbatim>\<open>setIgnoreMouseEvents\<close> changes
  nothing, mounting sends nothing and registers no handler, and after any sequence of timer
  ticks, notifications and pointer events nothing has been sent, no handler is registered and
  the component still shows its initial application context and intent.
\<close>

theorem channel_absent_noop:
  "setIgnoreMouseEvents False ignore st = st \<and>
   sent (mount False) = [] \<and> \<not> listening (mount False) \<and>
   sent (run False evs) = [] \<and> \<not> listening (run False evs) \<and>
   appContext (run False evs) = ''Detecting...'' \<and> intent (run False evs) = ''Idle''"
proof -
  have m: "sent (mount False) = []" "\<not> listening (mount False)"
    "appContext (mount False) = ''Detecting...''" "intent (mount False) = ''Idle''"
    by (simp_all add: mount_def initial_def setIgnoreMouseEvents_def)
  from foldl_step_without_channel [OF m(1) m(2), of evs] m
  show ?thesis by (simp add: run_def setIgnoreMouseEvents_def)
qed

text \<open>
  Claim C8. Delivering the same snapshot twice in a row leaves the same application context
  and intent after the second delivery as after the first, and what the handler writes to
  both depends on the snapshot only, not on the state it starts from.
\<close>

theorem same_snapshot_twice:
  "appContext (step req (step req st (ActiveWindowChange data)) (ActiveWindowChange data)) =
     appContext (step req st (ActiveWindowChange data)) \<and>
   intent (step req (step req st (ActiveWindowChange data)) (ActiveWindowChange data)) =
     intent (step req st (ActiveWindowChange data)) \<and>
   appContext (on_active_window_change data st) = appContext (on_active_window_change data st') \<and>
   intent (on_active_window_change data st) = intent (on_active_window_change data st')"
  by (simp add: on_active_window_change_def Let_def)

section \<open>The poll tick of the host shell\<close>

text \<open>
  Claim C6, as the specification states it: on every tick, a query that succeeds with a
  result sends exactly one notification. The callback tests \<^verbatim>\<open>mainWindow\<close> before it
  awaits the query and dereferences it afterwards: when the window is closed while the query
  is pending, the query returns a result, nothing is sent and the error of the dereference is
  logged.
\<close>

theorem poll_tick_closed_counterexample:
  "mainWindow \<lparr>mainWindow = True, activeWin = True, console = []\<rparr> \<and>
   activeWin \<lparr>mainWindow = True, activeWin = True, console = []\<rparr> \<and>
   poll_tick \<lparr>mainWindow = True, activeWin = True, console = []\<rparr> True
     (Found \<lparr>win_title = ''main.ts'', win_owner = \<lparr>name = ''Code.exe'', path = ''C:/Code.exe''\<rparr>\<rparr>) =
     Inr (\<lparr>mainWindow = False, activeWin = True,
            console = [(''[Window Poller Error]:'', NullWindow)]\<rparr>, [])"
  by (simp add: poll_tick_def query_and_send_def after_await_def on_closed_def)

text \<open>
  Claim C6, amended. On a tick that makes the foreground query (the window exists and the
  query module is loaded when the tick starts): a query that returns a result while the window
  is still there sends exactly one notification, carrying the title, the owner name and the
  owner path; a query that returns nothing or fails sends no notification, lets no error leave
  the tick (a failure is passed to \<^verbatim>\<open>console.error\<close>), and leaves the state of the display
  as it was.
\<close>

theorem poll_tick_outcomes:
  assumes "mainWindow h" and "activeWin h"
  shows "poll_tick h False (Found result) =
           Inr (h, [\<lparr>title = Some (win_title result), owner = Some (name (win_owner result)),
                     app = Some (path (win_owner result))\<rparr>]) \<and>
         poll_tick h was_closed Nothing = Inr (after_await was_closed h, []) \<and>
         poll_tick h was_closed (Rejected e) =
           Inr ((after_await was_closed h)
                  \<lparr>console := console h @ [(''[Window Poller Error]:'', Rejection e)]\<rparr>, []) \<and>
         display_after_tick h was_closed Nothing st = st \<and>
         display_after_tick h was_closed (Rejected e) st = st"
  using assms
  by (simp add: poll_tick_def query_and_send_def display_after_tick_def after_await_def
      on_closed_def)

theorem poll_tick_outcomes_witness:
  "mainWindow \<lparr>mainWindow = True, activeWin = True, console = []\<rparr> \<and>
   activeWin \<lparr>mainWindow = True, activeWin = True, console = []\<rparr> \<and>
   poll_tick \<lparr>mainWindow = True, activeWin = True, console = []\<rparr> False
     (Found \<lparr>win_title = ''main.ts'', win_owner = \<lparr>name = ''Code.exe'', path = ''C:/Code.exe''\<rparr>\<rparr>) =
     Inr (\<lparr>mainWindow = True, activeWin = True, console = []\<rparr>,
          [\<lparr>title = Some ''main.ts'', owner = Some ''Code.exe'', app = Some ''C:/Code.exe''\<rparr>]) \<and>
   poll_tick \<lparr>mainWindow = True, activeWin = True, console = []\<rparr> False Nothing =
     Inr (\<lparr>mainWindow = True, activeWin = True, console = []\<rparr>, []) \<and>
   poll_tick \<lparr>mainWindow = True, activeWin = True, console = []\<rparr> False (Rejected ''denied'') =
     Inr (\<lparr>mainWindow = True, activeWin = True,
            console = [(''[Window Poller Error]:'', Rejection ''denied'')]\<rparr>, []) \<and>
   display_after_tick \<lparr>mainWindow = True, activeWin = True, console = []\<rparr> False
     (Rejected ''denied'') (mount True) = mount True"
  using poll_tick_outcomes [of "\<lparr>mainWindow = True, activeWin = True, console = []\<rparr>"
      "\<lparr>win_title = ''main.ts'', win_owner = \<lparr>name = ''Code.exe'', path = ''C:/Code.exe''\<rparr>\<rparr>"
      False "''denied''" "mount True"]
  by (simp add: after_await_def)

end
